theory Spec2Isabelle
  imports
    Complex_Main
    "HOL-Library.Char_ord"
    "HOL-Library.List_Lexorder"
    "HOL-Library.Multiset"
    "HOL-Library.Monad_Syntax"
begin

section \<open>mdjournal: the report hook and the timeline drag hook\<close>

text \<open>
  The development embeds two source files of the client: the report hook
  (\<^verbatim>\<open>useReport\<close>, with \<^verbatim>\<open>parseReportFromMarkdown\<close> and the editing operations on a
  \<^verbatim>\<open>DailyReport\<close>) and the timeline drag hook (\<^verbatim>\<open>useTimelineDrag\<close>, with
  \<^verbatim>\<open>calculateNewTime\<close> and \<^verbatim>\<open>handleMouseUp\<close>).

  Conventions of the embedding.
  \<^item> A JavaScript string is a \<^typ>\<open>string\<close>, read as the UTF-8 bytes of the text. The
    classes \<^verbatim>\<open>\s\<close>, \<^verbatim>\<open>\d\<close> and \<^verbatim>\<open>.\<close> are the ASCII ones, so the model is exact for
    texts whose white space and line terminators are ASCII (no U+00A0, U+3000, U+2028
    and the like).
  \<^item> A JavaScript number is an exact rational (\<^typ>\<open>rat\<close>), or an \<^typ>\<open>int\<close> where the
    source only has whole numbers (minutes, hours, the snap unit); rounding error of
    doubles, \<^verbatim>\<open>NaN\<close> and \<^verbatim>\<open>Infinity\<close> are not represented, so statements about
    \<^verbatim>\<open>calculateNewTime\<close> assume a non-zero \<^verbatim>\<open>hourHeight\<close> and \<^verbatim>\<open>snapMinutes\<close>.
  \<^item> \<^verbatim>\<open>Date.now()\<close>, \<^verbatim>\<open>new Date().getFullYear()\<close> and the random suffix of an id are
    parameters of the operation that reads them.
  \<^item> React state is passed explicitly: an operation takes the previous report
    (\<^verbatim>\<open>null\<close> is \<^term>\<open>None\<close>) and returns the next one.
\<close>

subsection \<open>Strings and numbers of the platform\<close>

definition digitChar :: "nat \<Rightarrow> char" where
  "digitChar n = ''0123456789'' ! n"

text \<open>\<^verbatim>\<open>String(n)\<close> for a non-negative whole number.\<close>

fun showNat :: "nat \<Rightarrow> string" where
  "showNat n = (if n < 10 then [digitChar n] else showNat (n div 10) @ [digitChar (n mod 10)])"

declare showNat.simps [simp del]

text \<open>\<^verbatim>\<open>String(n)\<close> for a whole number.\<close>

definition showInt :: "int \<Rightarrow> string" where
  "showInt n = (if n < 0 then CHR ''-'' # showNat (nat (- n)) else showNat (nat n))"

text \<open>\<^verbatim>\<open>s.padStart(2, '0')\<close>.\<close>

definition padStart2 :: "string \<Rightarrow> string" where
  "padStart2 s = replicate (2 - length s) CHR ''0'' @ s"

text \<open>\<^verbatim>\<open>Math.round\<close>: the nearest integer, a tie going up.\<close>

definition jsRound :: "rat \<Rightarrow> int" where
  "jsRound x = \<lfloor>x + 1 / 2\<rfloor>"

text \<open>The remainder operator \<^verbatim>\<open>%\<close> on whole numbers: the sign is the dividend's.\<close>

definition jsRem :: "int \<Rightarrow> int \<Rightarrow> int" where
  "jsRem a b = sgn a * (\<bar>a\<bar> mod \<bar>b\<bar>)"

subsection \<open>The data model\<close>

text \<open>
  \<^verbatim>\<open>ScheduleItem\<close> and \<^verbatim>\<open>TodoItem\<close> both have the fields \<^verbatim>\<open>id\<close>, \<^verbatim>\<open>project\<close> and
  \<^verbatim>\<open>task\<close>; the todo's are prefixed here, and \<^verbatim>\<open>id\<close> of a schedule item is
  \<open>item_id\<close>.
\<close>

record ScheduleItem =
  item_id :: string
  time :: string
  project :: string
  task :: string

datatype priority = high | medium | low

text \<open>
  The status of a todo is declared as one of four string literals. At run time the field
  holds whatever \<^verbatim>\<open>toggleTodoStatus\<close> read from its lookup object, which for a key such
  as \<^verbatim>\<open>constructor\<close> is a member inherited from \<^verbatim>\<open>Object.prototype\<close> and not a string.
\<close>

datatype status_value = StatusString string | InheritedMember string

record TodoItem =
  todo_id :: string
  status :: status_value
  todo_project :: string
  todo_task :: string
  description :: "string option"
  deadline :: "string option"
  priority :: "priority option"

record DailyReport =
  date :: string
  author :: string
  plan :: "ScheduleItem list"
  result :: "ScheduleItem list"
  todos :: "TodoItem list"
  notes_text :: string

datatype schedule_type = PlanType | ResultType


text \<open>\<^verbatim>\<open>prev[type]\<close> and \<^verbatim>\<open>{ ...prev, [type]: items }\<close>.\<close>

fun getItems :: "schedule_type \<Rightarrow> DailyReport \<Rightarrow> ScheduleItem list" where
  "getItems PlanType r = plan r"
| "getItems ResultType r = result r"


text \<open>
  \<^verbatim>\<open>xs.sort((a, b) => a.time.localeCompare(b.time))\<close> is a stable sort on the key
  \<^verbatim>\<open>time\<close>. The order on strings is the lexicographic one on bytes; on zero-padded
  \<^verbatim>\<open>HH:MM\<close> strings the collation of \<^verbatim>\<open>localeCompare\<close> agrees with it.
\<close>

definition sortByTime :: "ScheduleItem list \<Rightarrow> ScheduleItem list" where
  "sortByTime xs = sort_key time xs"


subsection \<open>Editing operations of the report hook\<close>

definition updatePlan :: "ScheduleItem list \<Rightarrow> DailyReport option \<Rightarrow> DailyReport option" where
  "updatePlan xs prev = map_option (\<lambda>r. r\<lparr>plan := xs\<rparr>) prev"

definition updateResult :: "ScheduleItem list \<Rightarrow> DailyReport option \<Rightarrow> DailyReport option" where
  "updateResult xs prev = map_option (\<lambda>r. r\<lparr>result := xs\<rparr>) prev"

text \<open>
  The lookup object of \<^verbatim>\<open>toggleTodoStatus\<close> is an object literal with four own keys.
  Reading \<^verbatim>\<open>nextStatus[key]\<close> finds an own key first and a member of
  \<^verbatim>\<open>Object.prototype\<close> next; a value that is not a string is converted to a key that is
  neither.
\<close>

definition nextStatusTable :: "(string \<times> string) list" where
  "nextStatusTable =
     [(''pending'', ''in_progress''),
      (''in_progress'', ''completed''),
      (''completed'', ''on_hold''),
      (''on_hold'', ''pending'')]"

definition objectPrototypeKeys :: "string list" where
  "objectPrototypeKeys =
     [''constructor'', ''hasOwnProperty'', ''isPrototypeOf'', ''propertyIsEnumerable'',
      ''toLocaleString'', ''toString'', ''valueOf'', ''__proto__'',
      ''__defineGetter__'', ''__defineSetter__'', ''__lookupGetter__'', ''__lookupSetter__'']"

fun nextStatus :: "status_value \<Rightarrow> status_value option" where
  "nextStatus (StatusString k) =
     (case map_of nextStatusTable k of
        Some v \<Rightarrow> Some (StatusString v)
      | None \<Rightarrow> if k \<in> set objectPrototypeKeys then Some (InheritedMember k) else None)"
| "nextStatus (InheritedMember k) = None"

text \<open>\<^verbatim>\<open>nextStatus[t.status] || 'pending'\<close>: every value the lookup finds is truthy.\<close>

definition toggledStatus :: "status_value \<Rightarrow> status_value" where
  "toggledStatus s = (case nextStatus s of Some v \<Rightarrow> v | None \<Rightarrow> StatusString ''pending'')"

definition toggleTodo :: "string \<Rightarrow> TodoItem \<Rightarrow> TodoItem" where
  "toggleTodo i t = (if todo_id t \<noteq> i then t else t\<lparr>status := toggledStatus (status t)\<rparr>)"

definition toggleTodoStatus :: "string \<Rightarrow> DailyReport option \<Rightarrow> DailyReport option" where
  "toggleTodoStatus i prev =
     (case prev of
        None \<Rightarrow> None
      | Some r \<Rightarrow> Some (r\<lparr>todos := map (toggleTodo i) (todos r)\<rparr>))"





text \<open>\<^verbatim>\<open>xs.map((item, index) => ({ ...item, id: prefix + index }))\<close>.\<close>

definition reId :: "string \<Rightarrow> ScheduleItem list \<Rightarrow> ScheduleItem list" where
  "reId pre xs =
     map (\<lambda>(item, index). item\<lparr>item_id := pre @ showNat index\<rparr>) (zip xs [0..<length xs])"


definition copyPlanToResult :: "nat \<Rightarrow> DailyReport option \<Rightarrow> DailyReport option" where
  "copyPlanToResult now prev =
     (case prev of
        None \<Rightarrow> None
      | Some r \<Rightarrow> Some (r\<lparr>result := reId (''r'' @ showNat now @ ''-'') (plan r)\<rparr>))"

subsection \<open>The regular expressions of the decoder\<close>





































subsection \<open>The decoder: \<^verbatim>\<open>parseReportFromMarkdown\<close>\<close>


















subsection \<open>The drag hook: \<^verbatim>\<open>useTimelineDrag\<close>\<close>

definition formatMinutesToTime :: "int \<Rightarrow> string" where
  "formatMinutesToTime minutes =
     (let hour = minutes div 60;
          min = jsRem minutes 60
      in padStart2 (showInt hour) @ '':'' @ padStart2 (showInt min))"

text \<open>
  \<^verbatim>\<open>calculateNewTime\<close> in two parts: the minutes after rounding, snapping and clamping
  (the value of \<^verbatim>\<open>newMinutes\<close> before the last three lines), and the string made of
  them.
\<close>

definition calculateNewMinutes :: "int \<Rightarrow> rat \<Rightarrow> rat \<Rightarrow> int \<Rightarrow> int \<Rightarrow> int \<Rightarrow> int" where
  "calculateNewMinutes startMinutes offsetPx hourHeight maxHours startHour snapMinutes =
     (let offsetMinutes = (offsetPx / hourHeight) * 60;
          rounded = jsRound (of_int startMinutes + offsetMinutes);
          snapped = jsRound (of_int rounded / of_int snapMinutes) * snapMinutes;
          minMinutes = 0;
          maxMinutes = (startHour + maxHours) * 60
      in max minMinutes (min (maxMinutes - 60) snapped))"

definition calculateNewTime :: "int \<Rightarrow> rat \<Rightarrow> rat \<Rightarrow> int \<Rightarrow> int \<Rightarrow> int \<Rightarrow> string" where
  "calculateNewTime startMinutes offsetPx hourHeight maxHours startHour snapMinutes =
     (let newMinutes = calculateNewMinutes startMinutes offsetPx hourHeight maxHours startHour
                         snapMinutes;
          hour = newMinutes div 60;
          min = jsRem newMinutes 60
      in padStart2 (showInt hour) @ '':'' @ padStart2 (showInt min))"

record DragState =
  itemId :: string
  dragType :: schedule_type
  startY :: rat
  startMinutes :: int
  isBreak :: bool
  breakDuration :: "int option"

text \<open>The properties of the hook that \<^verbatim>\<open>handleMouseUp\<close> reads.\<close>

record DragProps =
  startHour :: int
  totalHours :: int
  hourHeight :: rat
  snapMinutes :: int

text \<open>The defaults of the hook's parameters.\<close>

definition defaultProps :: DragProps where
  "defaultProps = \<lparr>startHour = 8, totalHours = 12, hourHeight = 60, snapMinutes = 15\<rparr>"

text \<open>
  \<^verbatim>\<open>handleMouseMove\<close>: the offset it stores is the pointer's \<^verbatim>\<open>deltaY\<close> snapped to a
  quarter of \<^verbatim>\<open>hourHeight\<close>.
\<close>

definition snappedDelta :: "rat \<Rightarrow> rat \<Rightarrow> rat" where
  "snappedDelta deltaY hh = (let snapPx = hh / 4 in of_int (jsRound (deltaY / snapPx)) * snapPx)"

text \<open>
  The id of a copied item, \<^verbatim>\<open>r${Date.now()}-${Math.random().toString(36).substring(2, 9)}\<close>:
  \<open>now\<close> is the clock and \<open>rnd\<close> the random suffix.
\<close>

definition copyId :: "nat \<Rightarrow> string \<Rightarrow> string" where
  "copyId now rnd = ''r'' @ showNat now @ ''-'' @ rnd"

text \<open>The task of a copied break, U+4F11 U+61A9.\<close>

definition breakTask :: string where
  "breakTask = [CHR 0xE4, CHR 0xBC, CHR 0x91, CHR 0xE6, CHR 0x86, CHR 0xA9]"

text \<open>The message that \<^verbatim>\<open>message.success\<close> shows, with the values it interpolates.\<close>

datatype toast = BreakCopied string string | ItemCopied string | Moved string

text \<open>\<^verbatim>\<open>dragState.breakDuration || 60\<close>.\<close>

definition breakLength :: "DragState \<Rightarrow> int" where
  "breakLength ds = (case breakDuration ds of Some d \<Rightarrow> if d \<noteq> 0 then d else 60 | None \<Rightarrow> 60)"

text \<open>
  \<^verbatim>\<open>handleMouseUp\<close>. The arguments after the properties are the state the callback closes
  over: the drag state, the offset, whether the pointer is over the result area, and
  the current report. The result is the report after \<^verbatim>\<open>updatePlan\<close> or
  \<^verbatim>\<open>updateResult\<close>, and the message shown. The drag state itself is reset in every case
  and is not part of the result.
\<close>

definition handleMouseUp ::
  "DragProps \<Rightarrow> nat \<Rightarrow> string \<Rightarrow> DragState option \<Rightarrow> rat \<Rightarrow> bool \<Rightarrow> DailyReport option
     \<Rightarrow> DailyReport option \<times> toast option"
where
  "handleMouseUp props now rnd dragState dragOffset isDraggingToResult currentReport =
     (case (dragState, currentReport) of
        (Some ds, Some r) \<Rightarrow>
          let newTimeOf = (\<lambda>m. calculateNewTime m dragOffset (hourHeight props)
                                  (totalHours props) (startHour props) (snapMinutes props))
          in
          if dragType ds = PlanType \<and> isDraggingToResult then
            if isBreak ds then
              let newTime = (if dragOffset \<noteq> 0 then newTimeOf (startMinutes ds)
                             else formatMinutesToTime (startMinutes ds));
                  breakItem = \<lparr>item_id = copyId now rnd, time = newTime,
                                project = ''---'', task = breakTask\<rparr>;
                  endMinutes = startMinutes ds + breakLength ds;
                  endTime = (if dragOffset \<noteq> 0 then newTimeOf endMinutes
                             else formatMinutesToTime endMinutes);
                  updatedResult = sortByTime (result r @ [breakItem])
              in (updateResult updatedResult (Some r), Some (BreakCopied newTime endTime))
            else
              (case find (\<lambda>item. item_id item = itemId ds) (plan r) of
                 Some planItem \<Rightarrow>
                   let newTime = (if dragOffset \<noteq> 0 then newTimeOf (startMinutes ds)
                                  else time planItem);
                       newItem = \<lparr>item_id = copyId now rnd, time = newTime,
                                  project = project planItem, task = task planItem\<rparr>;
                       updatedResult = sortByTime (result r @ [newItem])
                   in (updateResult updatedResult (Some r), Some (ItemCopied (task planItem)))
               | None \<Rightarrow> (Some r, None))
          else if dragOffset \<noteq> 0 then
            let newTime = newTimeOf (startMinutes ds);
                items = getItems (dragType ds) r;
                updatedItems = sortByTime
                  (map (\<lambda>item. if item_id item = itemId ds then item\<lparr>time := newTime\<rparr> else item)
                       items)
            in ((case dragType ds of
                   PlanType \<Rightarrow> updatePlan updatedItems (Some r)
                 | ResultType \<Rightarrow> updateResult updatedItems (Some r)),
                Some (Moved newTime))
          else (Some r, None)
      | _ \<Rightarrow> (currentReport, None))"



subsection \<open>Sample inputs\<close>

definition sampleTodo :: "string \<Rightarrow> string \<Rightarrow> TodoItem" where
  "sampleTodo i s =
     \<lparr>todo_id = i, status = StatusString s, todo_project = ''P99'', todo_task = ''review'',
      description = None, deadline = None, priority = None\<rparr>"

definition sampleTodoReport :: "TodoItem list \<Rightarrow> DailyReport" where
  "sampleTodoReport ts =
     \<lparr>date = ''2025-01-06'', author = ''me'', plan = [], result = [], todos = ts,
      notes_text = []\<rparr>"

definition sampleItem :: "string \<Rightarrow> string \<Rightarrow> ScheduleItem" where
  "sampleItem i t = \<lparr>item_id = i, time = t, project = ''P1'', task = ''work''\<rparr>"

definition sampleReport :: "ScheduleItem list \<Rightarrow> ScheduleItem list \<Rightarrow> DailyReport" where
  "sampleReport ps rs =
     \<lparr>date = ''2025-01-06'', author = ''me'', plan = ps, result = rs, todos = [],
      notes_text = []\<rparr>"


definition sampleBreakDrag :: DragState where
  "sampleBreakDrag =
     \<lparr>itemId = ''break-0'', dragType = PlanType, startY = 100, startMinutes = 720,
      isBreak = True, breakDuration = Some 60\<rparr>"



section \<open>Properties of the editing operations\<close>

subsection \<open>Copying the plan\<close>

lemma digitChar_inj: "m < 10 \<Longrightarrow> n < 10 \<Longrightarrow> digitChar m = digitChar n \<Longrightarrow> m = n"
proof -
  assume m: "m < 10" and n: "n < 10" and e: "digitChar m = digitChar n"
  have "m \<in> {0,1,2,3,4,5,6,7,8,9}" using m by auto
  moreover have "n \<in> {0,1,2,3,4,5,6,7,8,9}" using n by auto
  ultimately show ?thesis using e by (auto simp: digitChar_def)
qed

lemma showNat_nonempty: "showNat n \<noteq> []"
  by (subst showNat.simps) simp

lemma showNat_inj: "showNat m = showNat n \<Longrightarrow> m = n"
proof (induction m arbitrary: n rule: showNat.induct)
  case (1 m)
  show ?case
  proof (cases "m < 10")
    case True
    show ?thesis
    proof (cases "n < 10")
      case n: True
      from "1.prems" True n have "digitChar m = digitChar n"
        by (simp add: showNat.simps[of m] showNat.simps[of n])
      then show ?thesis using True n digitChar_inj by blast
    next
      case n: False
      from "1.prems" True n have False
        using showNat_nonempty[of "n div 10"]
        by (simp add: showNat.simps[of m] showNat.simps[of n])
      then show ?thesis ..
    qed
  next
    case False
    show ?thesis
    proof (cases "n < 10")
      case n: True
      from "1.prems" False n have False
        using showNat_nonempty[of "m div 10"]
        by (simp add: showNat.simps[of m] showNat.simps[of n] )
      then show ?thesis ..
    next
      case n: False
      from "1.prems" False n
      have a: "showNat (m div 10) = showNat (n div 10)" and b: "digitChar (m mod 10) = digitChar (n mod 10)"
        by (simp_all add: showNat.simps[of m] showNat.simps[of n])
      from "1.IH"[OF False a] have "m div 10 = n div 10" .
      moreover from b have "m mod 10 = n mod 10" by (intro digitChar_inj) simp_all
      ultimately show ?thesis by (metis div_mult_mod_eq)
    qed
  qed
qed

lemma reId_length: "length (reId pre xs) = length xs"
  by (simp add: reId_def)

lemma reId_nth: "k < length xs \<Longrightarrow> reId pre xs ! k = (xs ! k)\<lparr>item_id := pre @ showNat k\<rparr>"
  by (simp add: reId_def)

lemma reId_time: "map time (reId pre xs) = map time xs"
  by (rule nth_equalityI) (simp_all add: reId_length reId_nth)

lemma reId_project: "map project (reId pre xs) = map project xs"
  by (rule nth_equalityI) (simp_all add: reId_length reId_nth)

lemma reId_task: "map task (reId pre xs) = map task xs"
  by (rule nth_equalityI) (simp_all add: reId_length reId_nth)

lemma reId_ids: "map item_id (reId pre xs) = map (\<lambda>k. pre @ showNat k) [0..<length xs]"
  by (rule nth_equalityI) (simp_all add: reId_length reId_nth)

lemma reId_distinct: "distinct (map item_id (reId pre xs))"
  unfolding reId_ids by (auto simp: distinct_map inj_on_def dest: showNat_inj)

text \<open>
  Claim C9. \<^verbatim>\<open>copyPlanToResult\<close> replaces the whole result list by copies of the plan
  entries: the same times, projects and tasks in the same order, each with the generated
  id \<^verbatim>\<open>r<now>-<index>\<close> (the ids are pairwise distinct); the new result does not
  depend on the old one, and plan, todos, notes, date and author are unchanged.
\<close>

theorem copyPlanToResult_replaces_result:
  "\<exists>r'. copyPlanToResult now (Some r) = Some r'
     \<and> map time (result r') = map time (plan r)
     \<and> map project (result r') = map project (plan r)
     \<and> map task (result r') = map task (plan r)
     \<and> map item_id (result r') = map (\<lambda>k. ''r'' @ showNat now @ ''-'' @ showNat k) [0..<length (plan r)]
     \<and> distinct (map item_id (result r'))
     \<and> (\<forall>old. copyPlanToResult now (Some (r\<lparr>result := old\<rparr>)) = Some r')
     \<and> plan r' = plan r \<and> todos r' = todos r \<and> notes_text r' = notes_text r
     \<and> date r' = date r \<and> author r' = author r"
proof -
  let ?r' = "r\<lparr>result := reId (''r'' @ showNat now @ ''-'') (plan r)\<rparr>"
  have "copyPlanToResult now (Some r) = Some ?r'"
    by (simp add: copyPlanToResult_def)
  moreover have "map item_id (result ?r')
      = map (\<lambda>k. ''r'' @ showNat now @ ''-'' @ showNat k) [0..<length (plan r)]"
    using reId_ids[of "''r'' @ showNat now @ ''-''" "plan r"] by simp
  moreover have "distinct (map item_id (result ?r'))"
    using reId_distinct[of "''r'' @ showNat now @ ''-''" "plan r"] by simp
  moreover have "\<forall>old. copyPlanToResult now (Some (r\<lparr>result := old\<rparr>)) = Some ?r'"
    by (simp add: copyPlanToResult_def)
  ultimately show ?thesis
    by (simp add: reId_time reId_project reId_task)
qed

subsection \<open>Toggling a todo\<close>

lemma toggledStatus_cycle:
  "toggledStatus (StatusString ''pending'') = StatusString ''in_progress''"
  "toggledStatus (StatusString ''in_progress'') = StatusString ''completed''"
  "toggledStatus (StatusString ''completed'') = StatusString ''on_hold''"
  "toggledStatus (StatusString ''on_hold'') = StatusString ''pending''"
  by (simp_all add: toggledStatus_def nextStatusTable_def)

lemma toggledStatus_other:
  "s \<notin> set (map fst nextStatusTable) \<Longrightarrow> s \<notin> set objectPrototypeKeys \<Longrightarrow>
   toggledStatus (StatusString s) = StatusString ''pending''"
  by (simp add: toggledStatus_def nextStatusTable_def)

lemma toggleTodo_other_id: "todo_id t \<noteq> i \<Longrightarrow> toggleTodo i t = t"
  by (simp add: toggleTodo_def)

lemma toggleTodo_same_id: "todo_id t = i \<Longrightarrow> toggleTodo i t = t\<lparr>status := toggledStatus (status t)\<rparr>"
  by (simp add: toggleTodo_def)

text \<open>
  Claim C10, amended. Toggling advances a status along the cycle pending, in_progress,
  completed, on_hold, pending, so that four applications restore each of the four; a
  status that is neither one of the four nor the name of a member that the lookup
  object inherits from \<^verbatim>\<open>Object.prototype\<close> becomes pending; and in the report only the
  status of the todos with the given id changes.
\<close>

theorem toggleTodoStatus_cycle_and_frame:
  "toggledStatus (StatusString ''pending'') = StatusString ''in_progress''
   \<and> toggledStatus (StatusString ''in_progress'') = StatusString ''completed''
   \<and> toggledStatus (StatusString ''completed'') = StatusString ''on_hold''
   \<and> toggledStatus (StatusString ''on_hold'') = StatusString ''pending''
   \<and> (s \<in> {''pending'', ''in_progress'', ''completed'', ''on_hold''} \<longrightarrow>
        (toggledStatus ^^ 4) (StatusString s) = StatusString s)
   \<and> (s \<notin> {''pending'', ''in_progress'', ''completed'', ''on_hold''} \<and> s \<notin> set objectPrototypeKeys \<longrightarrow>
        toggledStatus (StatusString s) = StatusString ''pending'')
   \<and> (\<exists>r'. toggleTodoStatus i (Some r) = Some r'
        \<and> length (todos r') = length (todos r)
        \<and> (\<forall>k < length (todos r).
              (todo_id (todos r ! k) \<noteq> i \<longrightarrow> todos r' ! k = todos r ! k)
            \<and> (todo_id (todos r ! k) = i \<longrightarrow>
                 todos r' ! k = (todos r ! k)\<lparr>status := toggledStatus (status (todos r ! k))\<rparr>))
        \<and> plan r' = plan r \<and> result r' = result r \<and> notes_text r' = notes_text r
        \<and> date r' = date r \<and> author r' = author r)"
proof -
  have four: "s \<in> {''pending'', ''in_progress'', ''completed'', ''on_hold''} \<longrightarrow>
        (toggledStatus ^^ 4) (StatusString s) = StatusString s"
    by (auto simp: numeral_eq_Suc toggledStatus_cycle)
  have other: "s \<notin> {''pending'', ''in_progress'', ''completed'', ''on_hold''} \<and> s \<notin> set objectPrototypeKeys \<longrightarrow>
        toggledStatus (StatusString s) = StatusString ''pending''"
    using toggledStatus_other[of s] by (simp add: nextStatusTable_def)
  have frame: "\<exists>r'. toggleTodoStatus i (Some r) = Some r'
        \<and> length (todos r') = length (todos r)
        \<and> (\<forall>k < length (todos r).
              (todo_id (todos r ! k) \<noteq> i \<longrightarrow> todos r' ! k = todos r ! k)
            \<and> (todo_id (todos r ! k) = i \<longrightarrow>
                 todos r' ! k = (todos r ! k)\<lparr>status := toggledStatus (status (todos r ! k))\<rparr>))
        \<and> plan r' = plan r \<and> result r' = result r \<and> notes_text r' = notes_text r
        \<and> date r' = date r \<and> author r' = author r"
    by (simp add: toggleTodoStatus_def toggleTodo_other_id toggleTodo_same_id)
  from four other frame show ?thesis
    by (simp only: toggledStatus_cycle simp_thms)
qed

text \<open>
  The claim as stated, that any unrecognized status becomes pending, fails for the status
  \<^verbatim>\<open>constructor\<close>: the lookup finds \<^verbatim>\<open>Object.prototype.constructor\<close>, which is truthy,
  and the todo's status becomes that function.
\<close>

theorem toggle_unrecognized_counterexample:
  "map status (todos (the (toggleTodoStatus ''t1''
      (Some (sampleTodoReport [sampleTodo ''t1'' ''constructor''])))))
   = [InheritedMember ''constructor'']"
  by (simp add: toggleTodoStatus_def toggleTodo_def toggledStatus_def sampleTodo_def
      sampleTodoReport_def nextStatusTable_def objectPrototypeKeys_def)

lemma ex_Some_the: "\<exists>y. x = Some y \<and> P y \<Longrightarrow> P (the x)"
  by auto

theorem toggleTodoStatus_cycle_and_frame_witness:
  "(toggledStatus ^^ 4) (StatusString ''completed'') = StatusString ''completed''
   \<and> toggledStatus (StatusString ''done'') = StatusString ''pending''
   \<and> todos (the (toggleTodoStatus ''t2''
        (Some (sampleTodoReport [sampleTodo ''t1'' ''pending'', sampleTodo ''t2'' ''on_hold'']))))
     = [sampleTodo ''t1'' ''pending'', sampleTodo ''t2'' ''pending'']"
proof -
  let ?r = "sampleTodoReport [sampleTodo ''t1'' ''pending'', sampleTodo ''t2'' ''on_hold'']"
  let ?r' = "the (toggleTodoStatus ''t2'' (Some ?r))"
  have a: "(toggledStatus ^^ 4) (StatusString ''completed'') = StatusString ''completed''"
    using toggleTodoStatus_cycle_and_frame[of "''completed''" "''t2''" ?r] by simp
  note th = toggleTodoStatus_cycle_and_frame[of "''done''" "''t2''" ?r]
  have b: "toggledStatus (StatusString ''done'') = StatusString ''pending''"
    using th[THEN conjunct2, THEN conjunct2, THEN conjunct2, THEN conjunct2, THEN conjunct2,
        THEN conjunct1]
    by (simp add: objectPrototypeKeys_def)
  note frame = th[THEN conjunct2, THEN conjunct2, THEN conjunct2, THEN conjunct2,
        THEN conjunct2, THEN conjunct2, THEN ex_Some_the]
  have len: "length (todos ?r') = 2"
    using frame[THEN conjunct1] by (simp add: sampleTodoReport_def)
  note each = frame[THEN conjunct2, THEN conjunct1, rule_format]
  have tds: "todos ?r = [sampleTodo ''t1'' ''pending'', sampleTodo ''t2'' ''on_hold'']"
    by (simp add: sampleTodoReport_def)
  have k0: "todos ?r' ! 0 = sampleTodo ''t1'' ''pending''"
    using each[of 0, THEN conjunct1] unfolding tds by (simp add: sampleTodo_def)
  have k1: "todos ?r' ! 1 = sampleTodo ''t2'' ''pending''"
    using each[of 1, THEN conjunct2] unfolding tds
    by (simp add: sampleTodo_def toggledStatus_def nextStatusTable_def)
  have "todos ?r' = [sampleTodo ''t1'' ''pending'', sampleTodo ''t2'' ''pending'']"
    using len k0 k1 by (intro nth_equalityI) (auto simp: less_Suc_eq numeral_2_eq_2)
  with a b show ?thesis by simp
qed

section \<open>Properties of the drag hook\<close>

subsection \<open>Rounding, snapping and clamping\<close>

lemma jsRound_of_int: "jsRound (of_int n) = n"
  unfolding jsRound_def by (rule floor_unique) simp_all

lemma jsRound_divide:
  assumes "0 < b"
  shows "jsRound (of_int a / of_int b) = (2 * a + b) div (2 * b)"
proof -
  have "(of_int a / of_int b + 1 / 2 :: rat) = of_int (2 * a + b) / of_int (2 * b)"
    using assms by (simp add: field_simps)
  then show ?thesis
    unfolding jsRound_def by (simp only: floor_divide_of_int_eq)
qed

lemma calculateNewTime_format:
  "calculateNewTime s px hh mh sh sn = formatMinutesToTime (calculateNewMinutes s px hh mh sh sn)"
  by (simp add: calculateNewTime_def formatMinutesToTime_def Let_def)

lemma formatMinutesToTime_570: "formatMinutesToTime 570 = ''09:30''"
  by (simp add: formatMinutesToTime_def jsRem_def showInt_def padStart2_def showNat.simps digitChar_def)

lemma jsRound_numeral: "jsRound (numeral n) = numeral n"
  using jsRound_of_int[of "numeral n"] by simp

text \<open>
  Claim C2. An entry at 09:00 (540 minutes) is dragged by the pixel delta that stands
  for 37 minutes, with a snap unit of 15: the delta converts to 37 minutes, the sum
  rounds to 577, snapping gives 570, clamping leaves it (the window reaches that far),
  and the new time is 09:30; the same holds for the offset that \<^verbatim>\<open>handleMouseMove\<close>
  stores for this delta.
\<close>

theorem drag_37_minutes_snaps_to_0930:
  assumes "hh \<noteq> 0" and "570 \<le> (sh + mh) * 60 - 60"
  shows "(37 * hh / 60) / hh * 60 = 37
       \<and> jsRound (540 + 37) = 577
       \<and> jsRound (577 / 15) * 15 = 570
       \<and> max 0 (min ((sh + mh) * 60 - 60) 570) = 570
       \<and> calculateNewMinutes 540 (37 * hh / 60) hh mh sh 15 = 570
       \<and> calculateNewTime 540 (37 * hh / 60) hh mh sh 15 = ''09:30''
       \<and> snappedDelta (37 * hh / 60) hh = hh / 2
       \<and> calculateNewTime 540 (snappedDelta (37 * hh / 60) hh) hh mh sh 15 = ''09:30''"
proof -
  have conv: "(37 * hh / 60) / hh * 60 = 37"
    using assms(1) by simp
  have r1: "jsRound (540 + 37) = 577"
    by (simp add: jsRound_numeral)
  have r2': "jsRound (577 / 15) = 38"
    using jsRound_divide[of 15 577] by simp
  then have r2: "jsRound (577 / 15) * 15 = 570"
    by simp
  have cl: "max 0 (min ((sh + mh) * 60 - 60) 570) = (570::int)"
    using assms(2) by simp
  have m: "calculateNewMinutes 540 (37 * hh / 60) hh mh sh 15 = 570"
    using r2' cl assms(1) by (simp add: calculateNewMinutes_def Let_def jsRound_numeral)
  have sd: "snappedDelta (37 * hh / 60) hh = hh / 2"
  proof -
    have "(37 * hh / 60) / (hh / 4) = of_int 37 / of_int 15"
      using assms(1) by simp
    then have "jsRound ((37 * hh / 60) / (hh / 4)) = 2"
      by (simp only: jsRound_divide) simp
    then show ?thesis by (simp add: snappedDelta_def Let_def)
  qed
  have r3: "jsRound (570 / 15) = 38"
    using jsRound_divide[of 15 570] by simp
  have m2: "calculateNewMinutes 540 (hh / 2) hh mh sh 15 = 570"
    using r3 cl assms(1)
    by (simp add: calculateNewMinutes_def Let_def jsRound_numeral)
  show ?thesis
    using conv r1 r2 cl m sd m2
    by (simp only: calculateNewTime_format formatMinutesToTime_570 simp_thms)
qed

theorem drag_37_minutes_snaps_to_0930_witness:
  "(60::rat) \<noteq> 0 \<and> (570::int) \<le> (8 + 12) * 60 - 60
   \<and> calculateNewTime 540 37 60 12 8 15 = ''09:30''
   \<and> calculateNewTime 540 (snappedDelta 37 60) 60 12 8 15 = ''09:30''"
proof -
  have a: "(60::rat) \<noteq> 0" by simp
  have b: "(570::int) \<le> (8 + 12) * 60 - 60" by simp
  have e: "37 * 60 / 60 = (37::rat)" by simp
  note th = drag_37_minutes_snaps_to_0930[OF a b, unfolded e]
  from th have c: "calculateNewTime 540 37 60 12 8 15 = ''09:30''" by (elim conjE)
  from th have d: "calculateNewTime 540 (snappedDelta 37 60) 60 12 8 15 = ''09:30''" by (elim conjE)
  from a b c d show ?thesis by (intro conjI)
qed










subsection \<open>Releasing a drag\<close>







lemma formatMinutesToTime_750: "formatMinutesToTime 750 = ''12:30''"
  by (simp add: formatMinutesToTime_def jsRem_def showInt_def padStart2_def showNat.simps digitChar_def)

lemma formatMinutesToTime_810: "formatMinutesToTime 810 = ''13:30''"
  by (simp add: formatMinutesToTime_def jsRem_def showInt_def padStart2_def showNat.simps digitChar_def)

lemma copyId_sample: "copyId 1700 ''k3j9x2a'' = ''r1700-k3j9x2a''"
  by (simp add: copyId_def showNat.simps digitChar_def)







text \<open>
  Claim C1 is not what the code does. A break of the plan list that starts at 12:00 and
  lasts 60 minutes is released over the result area with an offset of 30 pixels: the
  result list gains one entry, the break's start at 12:30. The end, 13:30, is computed
  and shown in the message, and no entry for it is added.
\<close>

theorem break_copy_adds_only_the_start:
  "handleMouseUp defaultProps 1700 ''k3j9x2a'' (Some sampleBreakDrag) 30 True
     (Some (sampleReport [] [sampleItem ''r1'' ''08:00'']))
   = (Some (sampleReport []
        [sampleItem ''r1'' ''08:00'',
         \<lparr>item_id = ''r1700-k3j9x2a'', time = ''12:30'', project = ''---'', task = breakTask\<rparr>]),
      Some (BreakCopied ''12:30'' ''13:30''))"
proof -
  have m1: "calculateNewMinutes 720 30 60 12 8 15 = 750"
    by (simp add: calculateNewMinutes_def Let_def jsRound_numeral jsRound_divide[of 15 750, simplified])
  have m2: "calculateNewMinutes 780 30 60 12 8 15 = 810"
    by (simp add: calculateNewMinutes_def Let_def jsRound_numeral jsRound_divide[of 15 810, simplified])
  have t1: "calculateNewTime 720 30 60 12 8 15 = ''12:30''"
    by (simp only: calculateNewTime_format m1 formatMinutesToTime_750)
  have t2: "calculateNewTime 780 30 60 12 8 15 = ''13:30''"
    by (simp only: calculateNewTime_format m2 formatMinutesToTime_810)
  show ?thesis
    by (simp add: handleMouseUp_def Let_def defaultProps_def sampleBreakDrag_def breakLength_def
        t1 t2 copyId_sample updateResult_def sampleReport_def sampleItem_def sortByTime_def)
qed

section \<open>Properties of the decoder\<close>

subsection \<open>Todo lines\<close>
















subsection \<open>Description lines\<close>












subsection \<open>Schedule lines\<close>



































end
